theory Spec2Isabelle
  imports Complex_Main
begin

section \<open>Values of the program\<close>

text \<open>
  The validators of \<^verbatim>\<open>pysnail/utils.py\<close> take arbitrary Python objects and probe
  them with \<^verbatim>\<open>isinstance\<close> and \<^verbatim>\<open>np.issubdtype\<close>. The objects they can tell
  apart are collected in one datatype.

  A floating-point number is either finite, an infinity or NaN. Finite values are
  modelled by real numbers: rounding is not modelled, the special values are, since
  they decide comparisons (\<^verbatim>\<open>nan == nan\<close> is false) and \<^verbatim>\<open>float.is_integer\<close>.
\<close>

datatype pyfloat = Fin real | PInf | NInf | NaN

datatype label = LStr string | LInt int

text \<open>
  A numpy array: its shape, its dtype and its elements in row-major order. The
  dtype is a floating-point one, or a signed or unsigned integer one of the given
  number of bits. The elements of an integer array are integers of the range of
  the dtype; they are kept as the finite values they convert to.
\<close>

datatype dtype = Float | SInt nat | UInt nat

record ndarray =
  shape :: "nat list"
  dtype :: dtype
  elems :: "pyfloat list"

fun in_dtype :: "dtype \<Rightarrow> pyfloat \<Rightarrow> bool" where
  "in_dtype Float x = True"
| "in_dtype (SInt w) (Fin r) =
     (0 < w \<and> r = of_int \<lfloor>r\<rfloor> \<and> - (2 ^ (w - 1)) \<le> \<lfloor>r\<rfloor> \<and> \<lfloor>r\<rfloor> < 2 ^ (w - 1))"
| "in_dtype (UInt w) (Fin r) = (r = of_int \<lfloor>r\<rfloor> \<and> 0 \<le> \<lfloor>r\<rfloor> \<and> \<lfloor>r\<rfloor> < 2 ^ w)"
| "in_dtype _ _ = False"

definition wf_ndarray :: "ndarray \<Rightarrow> bool" where
  "wf_ndarray a =
     (length (elems a) = prod_list (shape a) \<and> list_all (in_dtype (dtype a)) (elems a))"

definition ndim :: "ndarray \<Rightarrow> nat" where
  "ndim a = length (shape a)"

datatype pyval =
    PyNone
  | PyBool bool
  | PyInt int
  | PyFloat pyfloat
  | PyComplex pyfloat pyfloat
  | PyStr string
  | PyList "pyval list"
  | NpInt int
  | NpFloat pyfloat
  | NdArray ndarray
  | Series "label list" "pyfloat list"
  | DataFrame "label list" "pyfloat list list"

text \<open>
  The exception classes the functions raise, and the messages they build. A message
  is kept as the template and the values formatted into it; \<open>IgnoreIt m\<close> is
  \<^verbatim>\<open>f'{message} Ignore it.'\<close>.
\<close>

datatype exn = TypeError | ValueError | FileNotFoundError | AttributeError | IndexError

datatype message =
    ShouldBeInteger string pyval
  | ShouldBeIntegerOrFloat string pyval
  | ShouldBePositiveInteger string pyval
  | PathDoesNotExist string
  | TargetDoesNotExist pyval
  | ShouldBeStr string pyval
  | ShouldBeSeriesOrDataFrame string
  | DontShareIndex string string
  | AlreadyCentered string
  | AlreadyLogTransformed string
  | IgnoreIt message
  | NoAttribute pyval string
  | NotOrderable pyval
  | ZeroSizeReduction
  | UnequalDivision
  | TupleIndexOutOfRange
  | ReadError string

text \<open>
  A call either returns a value or raises; the warnings it emitted before that are
  kept in order. Only the program's own \<^verbatim>\<open>warnings.warn\<close> calls are recorded, not
  the diagnostics numpy prints for an invalid floating-point operation.
\<close>

datatype 'a outcome = Returned 'a | Raised exn message

type_synonym 'a result = "message list \<times> 'a outcome"

fun truthy :: "pyval \<Rightarrow> bool" where
  "truthy PyNone = False"
| "truthy (PyBool b) = b"
| "truthy (PyInt i) = (i \<noteq> 0)"
| "truthy (NpInt i) = (i \<noteq> 0)"
| "truthy (PyFloat f) = (f \<noteq> Fin 0)"
| "truthy (NpFloat f) = (f \<noteq> Fin 0)"
| "truthy (PyComplex re im) = (re \<noteq> Fin 0 \<or> im \<noteq> Fin 0)"
| "truthy (PyStr s) = (s \<noteq> [])"
| "truthy (PyList xs) = (xs \<noteq> [])"
| "truthy _ = True"

section \<open>The reporting pattern\<close>

text \<open>
  Every failing branch of a validator ends with the same three statements:
  \<^verbatim>\<open>if warn: warnings.warn(wmsg); if error: raise E(message); return False\<close>.
\<close>

definition report :: "bool \<Rightarrow> message \<Rightarrow> bool \<Rightarrow> exn \<Rightarrow> message \<Rightarrow> pyval result" where
  "report warn wmsg error e msg =
     ((if warn then [wmsg] else []),
      (if error then Raised e msg else Returned (PyBool False)))"

section \<open>is_integer and is_positive_integer\<close>

text \<open>\<^verbatim>\<open>float.is_integer()\<close>: a finite value with no fractional part.\<close>

fun float_is_integer :: "pyfloat \<Rightarrow> bool" where
  "float_is_integer (Fin r) = (r = of_int \<lfloor>r\<rfloor>)"
| "float_is_integer _ = False"

text \<open>
  \<^verbatim>\<open>isinstance(target, int) or np.issubdtype(dtype, np.integer)\<close>: Python ints,
  bools (a subclass of int) and numpy integer scalars.
\<close>

fun is_int_like :: "pyval \<Rightarrow> bool" where
  "is_int_like (PyInt _) = True"
| "is_int_like (PyBool _) = True"
| "is_int_like (NpInt _) = True"
| "is_int_like _ = False"

text \<open>
  \<^verbatim>\<open>isinstance(target, float) or np.issubdtype(dtype, np.inexact)\<close>: Python and numpy
  floats, and complex numbers (\<^verbatim>\<open>np.complexfloating\<close> is a subtype of
  \<^verbatim>\<open>np.inexact\<close>).
\<close>

fun is_inexact :: "pyval \<Rightarrow> bool" where
  "is_inexact (PyFloat _) = True"
| "is_inexact (NpFloat _) = True"
| "is_inexact (PyComplex _ _) = True"
| "is_inexact _ = False"

text \<open>
  \<^verbatim>\<open>target.is_integer()\<close> in the float branch: a complex number has no such
  method, and the attribute lookup raises.
\<close>

fun call_is_integer :: "pyval \<Rightarrow> bool outcome" where
  "call_is_integer (PyFloat f) = Returned (float_is_integer f)"
| "call_is_integer (NpFloat f) = Returned (float_is_integer f)"
| "call_is_integer v = Raised AttributeError (NoAttribute v ''is_integer'')"

definition is_integer :: "pyval \<Rightarrow> string \<Rightarrow> bool \<Rightarrow> bool \<Rightarrow> pyval result" where
  "is_integer target name warn error =
     (if is_int_like target then ([], Returned (PyBool True))
      else if is_inexact target then
        (case call_is_integer target of
           Raised e m \<Rightarrow> ([], Raised e m)
         | Returned True \<Rightarrow> ([], Returned (PyBool True))
         | Returned False \<Rightarrow>
             report warn (ShouldBeInteger name target) error
               ValueError (ShouldBeInteger name target))
      else
        report warn (ShouldBeIntegerOrFloat name target) error
          TypeError (ShouldBeIntegerOrFloat name target))"

text \<open>
  \<^verbatim>\<open>x > 0\<close> for the values that pass \<open>is_integer\<close>; any comparison with NaN is
  false. Other operands are not ordered against an int.
\<close>

fun float_gt_zero :: "pyfloat \<Rightarrow> bool" where
  "float_gt_zero (Fin r) = (0 < r)"
| "float_gt_zero PInf = True"
| "float_gt_zero _ = False"

fun gt_zero :: "pyval \<Rightarrow> bool outcome" where
  "gt_zero (PyInt i) = Returned (0 < i)"
| "gt_zero (PyBool b) = Returned b"
| "gt_zero (NpInt i) = Returned (0 < i)"
| "gt_zero (PyFloat f) = Returned (float_gt_zero f)"
| "gt_zero (NpFloat f) = Returned (float_gt_zero f)"
| "gt_zero v = Raised TypeError (NotOrderable v)"

definition is_positive_integer :: "pyval \<Rightarrow> string \<Rightarrow> bool \<Rightarrow> bool \<Rightarrow> pyval result" where
  "is_positive_integer x name warn error =
     (case is_integer x name warn error of
        (ws, Raised e m) \<Rightarrow> (ws, Raised e m)
      | (ws, Returned r) \<Rightarrow>
          if truthy r then
            (case gt_zero x of
               Raised e m \<Rightarrow> (ws, Raised e m)
             | Returned True \<Rightarrow> (ws, Returned (PyBool True))
             | Returned False \<Rightarrow>
                 (case report warn (ShouldBePositiveInteger name x) error
                         ValueError (ShouldBePositiveInteger name x) of
                    (ws', out) \<Rightarrow> (ws @ ws', out)))
          else (ws, Returned (PyBool False)))"

section \<open>is_file, is_series_dataframe, have_same_index\<close>

text \<open>
  The file system and the csv reader are outside the program: \<open>realpath\<close> is
  \<^verbatim>\<open>os.path.realpath\<close>, \<open>isfile\<close> is \<^verbatim>\<open>os.path.isfile\<close> and \<open>read_csv\<close> is the
  call \<^verbatim>\<open>pd.read_csv(path, sep='\t', index_col=0, header=None, squeeze=True)\<close>.
\<close>

record env =
  realpath :: "string \<Rightarrow> string"
  isfile :: "string \<Rightarrow> bool"
  read_csv :: "string \<Rightarrow> pyval outcome"

text \<open>
  In the branch of a missing file the source warns or raises and has no
  \<^verbatim>\<open>return\<close>: with \<open>warn\<close> set the call falls off the end of the function and
  returns \<^verbatim>\<open>None\<close>; without it the call raises whatever \<open>error\<close> is.
\<close>

definition is_file :: "env \<Rightarrow> pyval \<Rightarrow> string \<Rightarrow> bool \<Rightarrow> bool \<Rightarrow> pyval result" where
  "is_file E target name warn error =
     (case target of
        PyStr s \<Rightarrow>
          (let path = realpath E s in
           if isfile E path then ([], Returned (PyBool True))
           else if warn then ([IgnoreIt (PathDoesNotExist path)], Returned PyNone)
           else ([], Raised TypeError (PathDoesNotExist path)))
      | _ \<Rightarrow>
          report warn (IgnoreIt (ShouldBeStr name target)) error
            TypeError (ShouldBeStr name target))"

fun is_labeled :: "pyval \<Rightarrow> bool" where
  "is_labeled (Series _ _) = True"
| "is_labeled (DataFrame _ _) = True"
| "is_labeled _ = False"

definition is_series_dataframe :: "pyval \<Rightarrow> string \<Rightarrow> bool \<Rightarrow> bool \<Rightarrow> pyval result" where
  "is_series_dataframe target name warn error =
     (if \<not> is_labeled target then
        report warn (IgnoreIt (ShouldBeSeriesOrDataFrame name)) error
          TypeError (ShouldBeSeriesOrDataFrame name)
      else ([], Returned (PyBool True)))"

text \<open>The attribute \<^verbatim>\<open>.index\<close>; only series and dataframes have it.\<close>

fun index_of :: "pyval \<Rightarrow> label list outcome" where
  "index_of (Series idx _) = Returned idx"
| "index_of (DataFrame idx _) = Returned idx"
| "index_of v = Raised AttributeError (NoAttribute v ''index'')"

text \<open>
  The comparison \<^verbatim>\<open>set(target.index) == set(source.index)\<close> and what follows it.
  The mismatch branch has no \<^verbatim>\<open>return\<close>: unless it raises, the call returns
  \<^verbatim>\<open>None\<close>.
\<close>

definition compare_index ::
  "pyval \<Rightarrow> pyval \<Rightarrow> string \<Rightarrow> string \<Rightarrow> bool \<Rightarrow> bool \<Rightarrow> pyval result" where
  "compare_index target source target_name source_name warn error =
     (case index_of target of
        Raised e m \<Rightarrow> ([], Raised e m)
      | Returned ti \<Rightarrow>
          (case index_of source of
             Raised e m \<Rightarrow> ([], Raised e m)
           | Returned si \<Rightarrow>
               if set ti = set si then ([], Returned (PyBool True))
               else
                 ((if warn then [IgnoreIt (DontShareIndex target_name source_name)] else []),
                  (if error then Raised ValueError (DontShareIndex target_name source_name)
                   else Returned PyNone))))"

text \<open>
  \<^verbatim>\<open>is_series_dataframe(target, ...) and is_series_dataframe(source, ...)\<close>: the
  second check runs only when the first returned a true value, and a raise of
  either one leaves the function.
\<close>

definition have_same_index ::
  "pyval \<Rightarrow> pyval \<Rightarrow> string \<Rightarrow> string \<Rightarrow> bool \<Rightarrow> bool \<Rightarrow> pyval result" where
  "have_same_index target source target_name source_name warn error =
     (case is_series_dataframe target target_name warn error of
        (ws1, Raised e m) \<Rightarrow> (ws1, Raised e m)
      | (ws1, Returned r1) \<Rightarrow>
          if \<not> truthy r1 then (ws1, Returned (PyBool False))
          else
            (case is_series_dataframe source source_name warn error of
               (ws2, Raised e m) \<Rightarrow> (ws1 @ ws2, Raised e m)
             | (ws2, Returned r2) \<Rightarrow>
                 if \<not> truthy r2 then (ws1 @ ws2, Returned (PyBool False))
                 else
                   (case compare_index target source target_name source_name warn error of
                      (ws3, out) \<Rightarrow> (ws1 @ ws2 @ ws3, out))))"

section \<open>read_series\<close>

text \<open>
  \<open>read_series\<close> calls \<^verbatim>\<open>is_file(target)\<close> with the default name and flags, so
  its own \<open>warn\<close> and \<open>error\<close> reach only the last branch.
\<close>

fun is_series :: "pyval \<Rightarrow> bool" where
  "is_series (Series _ _) = True"
| "is_series _ = False"

definition read_file :: "env \<Rightarrow> pyval \<Rightarrow> pyval outcome" where
  "read_file E target =
     (case target of
        PyStr s \<Rightarrow> read_csv E (realpath E s)
      | _ \<Rightarrow> Raised TypeError (ShouldBeStr ''path'' target))"

definition read_series :: "env \<Rightarrow> pyval \<Rightarrow> bool \<Rightarrow> bool \<Rightarrow> pyval result" where
  "read_series E target warn error =
     (if is_series target then ([], Returned target)
      else
        (case is_file E target ''variable'' False False of
           (ws, Raised e m) \<Rightarrow> (ws, Raised e m)
         | (ws, Returned r) \<Rightarrow>
             if truthy r then (ws, read_file E target)
             else
               (ws @ (if warn then [IgnoreIt (TargetDoesNotExist target)] else []),
                (if error then Raised FileNotFoundError (TargetDoesNotExist target)
                 else Returned PyNone))))"

section \<open>augment_data\<close>

text \<open>
  The floating-point operations the function applies to each element. On finite
  values they are the operations on the reals; the special values follow IEEE 754,
  as numpy does: the logarithm of a negative number is NaN, of zero minus infinity.
\<close>

fun float_add :: "pyfloat \<Rightarrow> pyfloat \<Rightarrow> pyfloat" where
  "float_add (Fin a) (Fin b) = Fin (a + b)"
| "float_add NaN _ = NaN"
| "float_add _ NaN = NaN"
| "float_add PInf NInf = NaN"
| "float_add NInf PInf = NaN"
| "float_add PInf _ = PInf"
| "float_add _ PInf = PInf"
| "float_add NInf _ = NInf"
| "float_add _ NInf = NInf"

fun float_log2 :: "pyfloat \<Rightarrow> pyfloat" where
  "float_log2 (Fin r) = (if 0 < r then Fin (log 2 r) else if r = 0 then NInf else NaN)"
| "float_log2 PInf = PInf"
| "float_log2 NInf = NaN"
| "float_log2 NaN = NaN"

text \<open>\<^verbatim>\<open>-1 * x\<close>\<close>

fun float_neg :: "pyfloat \<Rightarrow> pyfloat" where
  "float_neg (Fin r) = Fin (- 1 * r)"
| "float_neg PInf = NInf"
| "float_neg NInf = PInf"
| "float_neg NaN = NaN"

text \<open>The comparisons \<^verbatim>\<open>==\<close> and \<^verbatim>\<open><\<close>: false whenever an operand is NaN.\<close>

fun float_eq :: "pyfloat \<Rightarrow> pyfloat \<Rightarrow> bool" where
  "float_eq NaN _ = False"
| "float_eq _ NaN = False"
| "float_eq x y = (x = y)"

fun float_lt :: "pyfloat \<Rightarrow> pyfloat \<Rightarrow> bool" where
  "float_lt NaN _ = False"
| "float_lt _ NaN = False"
| "float_lt (Fin a) (Fin b) = (a < b)"
| "float_lt NInf NInf = False"
| "float_lt NInf _ = True"
| "float_lt PInf _ = False"
| "float_lt (Fin _) PInf = True"
| "float_lt (Fin _) NInf = False"

text \<open>
  \<^verbatim>\<open>np.max\<close> and \<^verbatim>\<open>np.min\<close> return NaN when an element is NaN, and raise on an
  empty array.
\<close>

definition float_max :: "pyfloat \<Rightarrow> pyfloat \<Rightarrow> pyfloat" where
  "float_max x y = (if x = NaN \<or> y = NaN then NaN else if float_lt x y then y else x)"

definition float_min :: "pyfloat \<Rightarrow> pyfloat \<Rightarrow> pyfloat" where
  "float_min x y = (if x = NaN \<or> y = NaN then NaN else if float_lt y x then y else x)"

fun np_max :: "pyfloat list \<Rightarrow> pyfloat outcome" where
  "np_max [] = Raised ValueError ZeroSizeReduction"
| "np_max (x # xs) = Returned (foldl float_max x xs)"

fun np_min :: "pyfloat list \<Rightarrow> pyfloat outcome" where
  "np_min [] = Raised ValueError ZeroSizeReduction"
| "np_min (x # xs) = Returned (foldl float_min x xs)"

text \<open>
  \<^verbatim>\<open>np.mean\<close>: the sum divided by the number of elements, NaN on an empty array.
  \<^verbatim>\<open>np.isclose(m, 0)\<close> with the default tolerances is \<open>\<bar>m\<bar> \<le> 1e-8\<close> for a finite
  \<open>m\<close> and false otherwise.
\<close>

fun float_div_nat :: "pyfloat \<Rightarrow> nat \<Rightarrow> pyfloat" where
  "float_div_nat (Fin r) n = Fin (r / real n)"
| "float_div_nat x n = x"

definition np_mean :: "pyfloat list \<Rightarrow> pyfloat" where
  "np_mean xs = (if xs = [] then NaN else float_div_nat (foldl float_add (Fin 0) xs) (length xs))"

fun isclose_zero :: "pyfloat \<Rightarrow> bool" where
  "isclose_zero (Fin r) = (\<bar>r\<bar> \<le> 1 / 10 ^ 8)"
| "isclose_zero _ = False"

text \<open>
  Arithmetic on an integer array stays in its dtype and wraps around: in a signed
  array of 8 bits \<^verbatim>\<open>127 + 1\<close> is \<^verbatim>\<open>-128\<close>.
\<close>

definition wrap_signed :: "nat \<Rightarrow> int \<Rightarrow> int" where
  "wrap_signed w i = (i + 2 ^ (w - 1)) mod 2 ^ w - 2 ^ (w - 1)"

definition wrap_unsigned :: "nat \<Rightarrow> int \<Rightarrow> int" where
  "wrap_unsigned w i = i mod 2 ^ w"

text \<open>\<^verbatim>\<open>target + 1\<close>, element by element, in the dtype of the array.\<close>

fun np_add_one :: "dtype \<Rightarrow> pyfloat \<Rightarrow> pyfloat" where
  "np_add_one Float x = float_add x (Fin 1)"
| "np_add_one (SInt w) (Fin r) = Fin (of_int (wrap_signed w (\<lfloor>r\<rfloor> + 1)))"
| "np_add_one (UInt w) (Fin r) = Fin (of_int (wrap_unsigned w (\<lfloor>r\<rfloor> + 1)))"
| "np_add_one _ x = x"

text \<open>
  \<^verbatim>\<open>np.log2(target + 1)\<close>, element by element: the sum is taken in the dtype of
  the array, the logarithm converts it to a float.
\<close>

definition log2p1 :: "dtype \<Rightarrow> pyfloat \<Rightarrow> pyfloat" where
  "log2p1 dt x = float_log2 (np_add_one dt x)"

text \<open>
  \<^verbatim>\<open>-1 * target\<close>, element by element, in the dtype of the array. A signed
  product wraps around. For an unsigned array numpy 1 computes the product in a
  signed dtype of twice the width (a float for 64 bits), where it is exact; the
  case is not reached by a well-formed unsigned array, whose minimum is never
  negative.
\<close>

fun np_neg :: "dtype \<Rightarrow> pyfloat \<Rightarrow> pyfloat" where
  "np_neg Float x = float_neg x"
| "np_neg (SInt w) (Fin r) = Fin (of_int (wrap_signed w (- 1 * \<lfloor>r\<rfloor>)))"
| "np_neg (UInt w) (Fin r) = Fin (of_int (- 1 * \<lfloor>r\<rfloor>))"
| "np_neg _ x = x"

fun neg_dtype :: "dtype \<Rightarrow> dtype" where
  "neg_dtype Float = Float"
| "neg_dtype (SInt w) = SInt w"
| "neg_dtype (UInt w) = (if w < 64 then SInt (2 * w) else Float)"

text \<open>\<^verbatim>\<open>np.concatenate([target, -1 * target])\<close> on a flat array.\<close>

definition mirror :: "dtype \<Rightarrow> pyfloat list \<Rightarrow> ndarray" where
  "mirror dt xs =
     \<lparr>shape = [length xs + length xs], dtype = neg_dtype dt, elems = xs @ map (np_neg dt) xs\<rparr>"

text \<open>
  \<^verbatim>\<open>target.reshape(-1)\<close> keeps the elements in order. The test on the mean only
  warns; the branch is chosen by \<^verbatim>\<open>np.max(target) < 100 and np.min(target) < 0\<close>,
  whose second operand is evaluated only when the first is true.
\<close>

definition log_like :: "pyfloat list \<Rightarrow> bool outcome" where
  "log_like xs =
     (case np_max xs of
        Raised e m \<Rightarrow> Raised e m
      | Returned mx \<Rightarrow>
          if float_lt mx (Fin 100) then
            (case np_min xs of
               Raised e m \<Rightarrow> Raised e m
             | Returned mn \<Rightarrow> Returned (float_lt mn (Fin 0)))
          else Returned False)"

definition augment_data :: "ndarray \<Rightarrow> string \<Rightarrow> bool \<Rightarrow> ndarray result" where
  "augment_data target name warn =
     (let xs = elems target;
          ws1 = (if isclose_zero (np_mean xs) \<and> warn then [AlreadyCentered name] else [])
      in case log_like xs of
           Raised e m \<Rightarrow> (ws1, Raised e m)
         | Returned True \<Rightarrow>
             (ws1 @ (if warn then [AlreadyLogTransformed name] else []),
              Returned (mirror (dtype target) xs))
         | Returned False \<Rightarrow>
             (ws1, Returned (mirror Float (map (log2p1 (dtype target)) xs))))"

section \<open>reduce_data\<close>

text \<open>
  \<^verbatim>\<open>np.split(target, 2, axis=axis)[0]\<close>. numpy reads \<^verbatim>\<open>target.shape[axis]\<close>, a tuple
  index that may be negative and raises when out of range, refuses an odd length,
  and cuts the array in two along the axis. In row-major order the array is a
  sequence of blocks of \<open>shape[axis] * inner\<close> elements, \<open>inner\<close> the product of
  the later dimensions; the first half keeps the first half of every block.
\<close>

definition tuple_index :: "nat \<Rightarrow> int \<Rightarrow> nat outcome" where
  "tuple_index n i =
     (if 0 \<le> i \<and> i < int n then Returned (nat i)
      else if - int n \<le> i \<and> i < 0 then Returned (nat (i + int n))
      else Raised IndexError TupleIndexOutOfRange)"

fun take_blocks :: "nat \<Rightarrow> nat \<Rightarrow> nat \<Rightarrow> 'a list \<Rightarrow> 'a list" where
  "take_blocks 0 blk k xs = []"
| "take_blocks (Suc m) blk k xs = take k xs @ take_blocks m blk k (drop blk xs)"

definition first_half :: "ndarray \<Rightarrow> nat \<Rightarrow> ndarray" where
  "first_half a k =
     (let n = shape a ! k;
          outer = prod_list (take k (shape a));
          inner = prod_list (drop (Suc k) (shape a))
      in a\<lparr>shape := (shape a)[k := n div 2],
           elems := take_blocks outer (n * inner) (n div 2 * inner) (elems a)\<rparr>)"

definition reduce_data :: "ndarray \<Rightarrow> int \<Rightarrow> ndarray outcome" where
  "reduce_data target axis =
     (case tuple_index (ndim target) axis of
        Raised e m \<Rightarrow> Raised e m
      | Returned k \<Rightarrow>
          if shape target ! k mod 2 \<noteq> 0 then Raised ValueError UnequalDivision
          else Returned (first_half target k))"

section \<open>likelihood_ratio_test\<close>

text \<open>
  The function computes \<^verbatim>\<open>2 * (log_likelihood_complex - log_likelihood_simplified)\<close>
  and hands it, with \<open>df\<close>, to \<^verbatim>\<open>stats.chi2.sf\<close>. The survival function belongs to
  scipy and is a parameter here; \<open>df\<close> is passed on as it comes, whatever its type.
  The log-likelihoods are finite floats, modelled by reals.
\<close>

definition likelihood_ratio_test :: "(real \<Rightarrow> 'd \<Rightarrow> 'r) \<Rightarrow> real \<Rightarrow> real \<Rightarrow> 'd \<Rightarrow> 'r" where
  "likelihood_ratio_test sf log_likelihood_simplified log_likelihood_complex df =
     (let likelihood_ratio = 2 * (log_likelihood_complex - log_likelihood_simplified)
      in sf likelihood_ratio df)"

text \<open>
  The survival function of the chi-squared distribution for an even number
  \<open>df = 2 * k\<close> of degrees of freedom: \<open>exp (- x / 2)\<close> times the sum of
  \<open>(x / 2) ^ i / i!\<close> over \<open>i < k\<close> for a positive \<open>x\<close>, and 1 otherwise. For four
  degrees of freedom it is \<open>exp (- x / 2) * (1 + x / 2)\<close>. It stands for
  \<^verbatim>\<open>stats.chi2.sf\<close> at even \<open>df\<close> only.
\<close>

definition chi2_sf :: "real \<Rightarrow> nat \<Rightarrow> real" where
  "chi2_sf x df =
     (if x \<le> 0 then 1 else exp (- x / 2) * (\<Sum>i<df div 2. (x / 2) ^ i / fact i))"

section \<open>Notions of the specification\<close>

text \<open>The strings, the inputs \<^verbatim>\<open>isinstance(target, str)\<close> accepts.\<close>

fun is_str :: "pyval \<Rightarrow> bool" where
  "is_str (PyStr _) = True"
| "is_str _ = False"

text \<open>
  The numeric objects: Python and numpy integers, booleans, floats and complex
  numbers.
\<close>

fun is_numeric :: "pyval \<Rightarrow> bool" where
  "is_numeric (PyBool _) = True"
| "is_numeric (PyInt _) = True"
| "is_numeric (NpInt _) = True"
| "is_numeric (PyFloat _) = True"
| "is_numeric (NpFloat _) = True"
| "is_numeric (PyComplex _ _) = True"
| "is_numeric _ = False"

text \<open>The set of index labels of a series or dataframe.\<close>

fun label_set :: "pyval \<Rightarrow> label set" where
  "label_set (Series idx _) = set idx"
| "label_set (DataFrame idx _) = set idx"
| "label_set _ = {}"

text \<open>
  The element-wise comparison \<^verbatim>\<open>x == y\<close> of two arrays, all of whose entries are
  true; \<open>sign_symmetric n a\<close> is \<^verbatim>\<open>a[n:] == -1 * a[:n]\<close>.
\<close>

definition all_equal :: "pyfloat list \<Rightarrow> pyfloat list \<Rightarrow> bool" where
  "all_equal xs ys = list_all2 float_eq xs ys"

definition sign_symmetric :: "nat \<Rightarrow> ndarray \<Rightarrow> bool" where
  "sign_symmetric n a = all_equal (drop n (elems a)) (map float_neg (take n (elems a)))"

text \<open>\<^verbatim>\<open>x <= y\<close> on floats.\<close>

definition float_le :: "pyfloat \<Rightarrow> pyfloat \<Rightarrow> bool" where
  "float_le x y = (float_lt x y \<or> float_eq x y)"

text \<open>
  An element whose logarithm \<^verbatim>\<open>log2(x + 1)\<close> is not NaN and whose sum \<^verbatim>\<open>x + 1\<close> does
  not wrap around: it is at least -1 and, in an integer array, an integer of the
  dtype below the largest one.
\<close>

fun log_safe :: "dtype \<Rightarrow> pyfloat \<Rightarrow> bool" where
  "log_safe Float x = float_le (Fin (- 1)) x"
| "log_safe (SInt w) x =
     (in_dtype (SInt w) x \<and> float_le (Fin (- 1)) x \<and> float_lt x (Fin (2 ^ (w - 1) - 1)))"
| "log_safe (UInt w) x = (in_dtype (UInt w) x \<and> float_lt x (Fin (2 ^ w - 1)))"

text \<open>A file system on which no path is a regular file.\<close>

definition no_files :: env where
  "no_files = \<lparr>realpath = (\<lambda>p. p), isfile = (\<lambda>p. False),
                read_csv = (\<lambda>p. Raised FileNotFoundError (ReadError p))\<rparr>"

section \<open>Integers\<close>

lemma floor_self_iff: "(r = real_of_int \<lfloor>r\<rfloor>) = (r \<in> \<int>)"
proof
  assume "r = real_of_int \<lfloor>r\<rfloor>"
  then show "r \<in> \<int>" by (metis Ints_of_int)
next
  assume "r \<in> \<int>"
  then obtain z where "r = of_int z" by (rule Ints_cases)
  then show "r = real_of_int \<lfloor>r\<rfloor>" by simp
qed

text \<open>
  C7. \<open>is_integer\<close> returns true on every integer, Python or numpy, and on every
  float whose fractional part is zero, whatever the flags. With both flags unset it
  returns false, without raising, on a float with a non-zero fractional part and on
  an input that is not numeric; the failure of the latter is the wrong-type one: it
  is reported with the type message, and raised as a \<open>TypeError\<close> when \<open>error\<close> is
  set.
\<close>

theorem is_integer_cases:
  "is_integer (PyInt k) name warn error = ([], Returned (PyBool True))
   \<and> is_integer (NpInt k) name warn error = ([], Returned (PyBool True))
   \<and> (frac r = 0 \<longrightarrow>
        is_integer (PyFloat (Fin r)) name warn error = ([], Returned (PyBool True))
      \<and> is_integer (NpFloat (Fin r)) name warn error = ([], Returned (PyBool True)))
   \<and> (frac s \<noteq> 0 \<longrightarrow>
        is_integer (PyFloat (Fin s)) name False False = ([], Returned (PyBool False))
      \<and> is_integer (NpFloat (Fin s)) name False False = ([], Returned (PyBool False)))
   \<and> (\<not> is_numeric v \<longrightarrow>
        is_integer v name False False = ([], Returned (PyBool False))
      \<and> is_integer v name warn error =
          report warn (ShouldBeIntegerOrFloat name v) error
            TypeError (ShouldBeIntegerOrFloat name v))"
proof -
  have nonnum: "\<not> is_numeric v \<Longrightarrow> \<not> is_int_like v \<and> \<not> is_inexact v"
    by (cases v) simp_all
  show ?thesis
    using nonnum
    by (simp add: is_integer_def report_def floor_self_iff)
qed

theorem is_integer_cases_witness:
  "is_integer (PyInt 7) ''n'' True True = ([], Returned (PyBool True))
   \<and> frac (2::real) = 0
   \<and> is_integer (PyFloat (Fin 2)) ''n'' True True = ([], Returned (PyBool True))
   \<and> frac (3 / 2 :: real) \<noteq> 0
   \<and> is_integer (PyFloat (Fin (3 / 2))) ''n'' False False = ([], Returned (PyBool False))
   \<and> \<not> is_numeric (PyStr ''abc'')
   \<and> is_integer (PyStr ''abc'') ''n'' False False = ([], Returned (PyBool False))
   \<and> is_integer (PyStr ''abc'') ''n'' False True =
         ([], Raised TypeError (ShouldBeIntegerOrFloat ''n'' (PyStr ''abc'')))"
proof -
  have a: "frac (2::real) = 0" by simp
  have b: "frac (3 / 2 :: real) \<noteq> 0" by (simp add: frac_def)
  have c: "\<not> is_numeric (PyStr ''abc'')" by simp
  from is_integer_cases [of 7 "''n''" True True 2 "3 / 2" "PyStr ''abc''"] a b c
  have 1: "is_integer (PyInt 7) ''n'' True True = ([], Returned (PyBool True))"
    and 2: "is_integer (PyFloat (Fin 2)) ''n'' True True = ([], Returned (PyBool True))"
    and 3: "is_integer (PyFloat (Fin (3 / 2))) ''n'' False False = ([], Returned (PyBool False))"
    and 4: "is_integer (PyStr ''abc'') ''n'' False False = ([], Returned (PyBool False))"
    by blast+
  from is_integer_cases [of 7 "''n''" False True 2 "3 / 2" "PyStr ''abc''"] c
  have 5: "is_integer (PyStr ''abc'') ''n'' False True =
         ([], Raised TypeError (ShouldBeIntegerOrFloat ''n'' (PyStr ''abc'')))"
    by (simp add: report_def)
  from a b c 1 2 3 4 5 show ?thesis by blast
qed

text \<open>
  C10. A boolean passes \<open>is_integer\<close>, and \<open>True\<close> passes \<open>is_positive_integer\<close>:
  the test \<^verbatim>\<open>isinstance(target, int)\<close> accepts it before any other test runs.
\<close>

theorem bool_is_integer:
  "is_integer (PyBool b) name warn error = ([], Returned (PyBool True))
   \<and> is_positive_integer (PyBool True) name warn error = ([], Returned (PyBool True))"
  by (simp add: is_integer_def is_positive_integer_def)

section \<open>Files\<close>

text \<open>
  C3. For a string path that does not resolve to a regular file, \<open>is_file\<close> with
  \<open>warn\<close> set emits one warning and returns without raising (the value is
  \<^verbatim>\<open>None\<close>); with \<open>warn\<close> unset it raises a \<open>TypeError\<close>. Neither depends on
  the \<open>error\<close> flag.
\<close>

theorem is_file_missing:
  assumes "\<not> isfile E (realpath E p)"
  shows "is_file E (PyStr p) name True error =
           ([IgnoreIt (PathDoesNotExist (realpath E p))], Returned PyNone)
       \<and> is_file E (PyStr p) name False error =
           ([], Raised TypeError (PathDoesNotExist (realpath E p)))"
  using assms by (simp add: is_file_def)

theorem is_file_missing_witness:
  "\<not> isfile no_files (realpath no_files ''missing.tsv'')
   \<and> is_file no_files (PyStr ''missing.tsv'') ''variable'' True True =
        ([IgnoreIt (PathDoesNotExist ''missing.tsv'')], Returned PyNone)
   \<and> is_file no_files (PyStr ''missing.tsv'') ''variable'' False False =
        ([], Raised TypeError (PathDoesNotExist ''missing.tsv''))"
proof -
  have h: "\<not> isfile no_files (realpath no_files ''missing.tsv'')"
    by (simp add: no_files_def)
  have r: "realpath no_files ''missing.tsv'' = ''missing.tsv''"
    by (simp add: no_files_def)
  from is_file_missing [OF h, of "''variable''" True] is_file_missing [OF h, of "''variable''" False] h r
  show ?thesis by simp
qed

text \<open>
  Whatever its own flags, \<open>read_series\<close> raises on a string path that is not a
  regular file: the call \<^verbatim>\<open>is_file(target)\<close> it makes leaves \<open>warn\<close> unset.
\<close>

lemma read_series_missing_path:
  "\<not> isfile E (realpath E p) \<Longrightarrow>
     read_series E (PyStr p) warn error = ([], Raised TypeError (PathDoesNotExist (realpath E p)))"
  by (simp add: read_series_def is_file_def)

text \<open>
  C1. On the path \<^verbatim>\<open>missing.tsv\<close> of a file system without that file,
  \<open>read_series\<close> with the default flags does not return \<^verbatim>\<open>None\<close>: it raises the
  \<open>TypeError\<close> of \<open>is_file\<close>. With \<open>error\<close> set it raises the same \<open>TypeError\<close>,
  not \<open>FileNotFoundError\<close>.
\<close>

theorem read_series_missing_raises:
  "read_series no_files (PyStr ''missing.tsv'') False False =
     ([], Raised TypeError (PathDoesNotExist ''missing.tsv''))
   \<and> read_series no_files (PyStr ''missing.tsv'') False True =
     ([], Raised TypeError (PathDoesNotExist ''missing.tsv''))"
  by (simp add: read_series_def is_file_def no_files_def)

section \<open>Index comparison\<close>

lemma xy_neq_xyz: "set [LStr ''x'', LStr ''y''] \<noteq> set [LStr ''x'', LStr ''y'', LStr ''z'']"
proof
  assume h: "set [LStr ''x'', LStr ''y''] = set [LStr ''x'', LStr ''y'', LStr ''z'']"
  have "LStr ''z'' \<in> set [LStr ''x'', LStr ''y'', LStr ''z'']" by simp
  with h have "LStr ''z'' \<in> set [LStr ''x'', LStr ''y'']" by (simp only:)
  then show False by simp
qed

lemma xyz_perm: "set [LStr ''x'', LStr ''y'', LStr ''z''] = set [LStr ''z'', LStr ''x'', LStr ''y'']"
  by (simp add: insert_commute)

text \<open>
  The failing branches that end with \<^verbatim>\<open>return False\<close>: with \<open>error\<close> unset they
  return the boolean false, after one warning exactly when \<open>warn\<close> is set.
\<close>

lemma is_integer_fractional_policy:
  "frac r \<noteq> 0 \<Longrightarrow> is_integer (PyFloat (Fin r)) name warn False =
     ((if warn then [ShouldBeInteger name (PyFloat (Fin r))] else []), Returned (PyBool False))"
  by (simp add: is_integer_def report_def floor_self_iff)

lemma is_integer_wrong_type_policy:
  "\<not> is_numeric v \<Longrightarrow> is_integer v name warn False =
     ((if warn then [ShouldBeIntegerOrFloat name v] else []), Returned (PyBool False))"
  by (cases v) (simp_all add: is_integer_def report_def)

lemma is_positive_integer_policy:
  "k \<le> 0 \<Longrightarrow> is_positive_integer (PyInt k) name warn False =
     ((if warn then [ShouldBePositiveInteger name (PyInt k)] else []), Returned (PyBool False))"
  by (simp add: is_positive_integer_def is_integer_def report_def)

lemma is_series_dataframe_policy:
  "\<not> is_labeled v \<Longrightarrow> is_series_dataframe v name warn False =
     ((if warn then [IgnoreIt (ShouldBeSeriesOrDataFrame name)] else []), Returned (PyBool False))"
  by (simp add: is_series_dataframe_def report_def)

lemma is_file_wrong_type_policy:
  "\<not> is_str v \<Longrightarrow> is_file E v name warn False =
     ((if warn then [IgnoreIt (ShouldBeStr name v)] else []), Returned (PyBool False))"
  by (cases v) (simp_all add: is_file_def report_def)

text \<open>
  C2. Two failing checks with \<open>error\<close> unset that do not return the boolean false:
  \<open>have_same_index\<close> on the label sets \<open>{x, y}\<close> and \<open>{x, y, z}\<close>, and \<open>is_file\<close>
  on a missing file with \<open>warn\<close> set, both return \<^verbatim>\<open>None\<close>.
\<close>

theorem failed_checks_return_none:
  "have_same_index (Series [LStr ''x'', LStr ''y''] [Fin 1, Fin 2])
      (Series [LStr ''x'', LStr ''y'', LStr ''z''] [Fin 1, Fin 2, Fin 3])
      ''variable 1'' ''variable 2'' False False = ([], Returned PyNone)
   \<and> is_file no_files (PyStr ''missing.tsv'') ''variable'' True False =
      ([IgnoreIt (PathDoesNotExist ''missing.tsv'')], Returned PyNone)"
proof -
  have "have_same_index (Series [LStr ''x'', LStr ''y''] [Fin 1, Fin 2])
      (Series [LStr ''x'', LStr ''y'', LStr ''z''] [Fin 1, Fin 2, Fin 3])
      ''variable 1'' ''variable 2'' False False = ([], Returned PyNone)"
    using xy_neq_xyz
    by (simp add: have_same_index_def is_series_dataframe_def compare_index_def)
  moreover have "is_file no_files (PyStr ''missing.tsv'') ''variable'' True False =
      ([IgnoreIt (PathDoesNotExist ''missing.tsv'')], Returned PyNone)"
    by (simp add: is_file_def no_files_def)
  ultimately show ?thesis by blast
qed

lemma have_same_index_labeled:
  assumes "is_labeled a" "is_labeled b"
  shows "have_same_index a b an bn warn error =
           (if label_set a = label_set b then ([], Returned (PyBool True))
            else ((if warn then [IgnoreIt (DontShareIndex an bn)] else []),
                  (if error then Raised ValueError (DontShareIndex an bn) else Returned PyNone)))"
proof -
  from assms(1) obtain ia where a: "index_of a = Returned ia" "label_set a = set ia"
    by (cases a) auto
  from assms(2) obtain ib where b: "index_of b = Returned ib" "label_set b = set ib"
    by (cases b) auto
  from assms a b show ?thesis
    by (simp add: have_same_index_def is_series_dataframe_def compare_index_def)
qed

text \<open>
  C6. On two series or dataframes \<open>have_same_index\<close> returns true exactly when
  their label sets are equal; when they differ it warns if \<open>warn\<close> is set and then
  either raises a \<open>ValueError\<close> (\<open>error\<close> set) or returns \<^verbatim>\<open>None\<close>, a false value.
  When one input is neither, the result is that of the first failing
  \<open>is_series_dataframe\<close> check, which is the boolean false when \<open>error\<close> is unset;
  the indices are not compared.
\<close>

theorem have_same_index_spec:
  "(is_labeled a \<and> is_labeled b \<longrightarrow>
      ((snd (have_same_index a b an bn warn error) = Returned (PyBool True))
         = (label_set a = label_set b))
    \<and> (label_set a \<noteq> label_set b \<longrightarrow>
         have_same_index a b an bn warn error =
           ((if warn then [IgnoreIt (DontShareIndex an bn)] else []),
            (if error then Raised ValueError (DontShareIndex an bn) else Returned PyNone))
       \<and> \<not> truthy PyNone))
   \<and> (\<not> is_labeled a \<longrightarrow>
         have_same_index a b an bn warn error = is_series_dataframe a an warn error
       \<and> have_same_index a b an bn warn False =
           ((if warn then [IgnoreIt (ShouldBeSeriesOrDataFrame an)] else []),
            Returned (PyBool False)))
   \<and> (is_labeled a \<and> \<not> is_labeled b \<longrightarrow>
         have_same_index a b an bn warn error = is_series_dataframe b bn warn error
       \<and> have_same_index a b an bn warn False =
           ((if warn then [IgnoreIt (ShouldBeSeriesOrDataFrame bn)] else []),
            Returned (PyBool False)))"
proof -
  have 1: "is_labeled a \<and> is_labeled b \<longrightarrow>
      ((snd (have_same_index a b an bn warn error) = Returned (PyBool True))
         = (label_set a = label_set b))
    \<and> (label_set a \<noteq> label_set b \<longrightarrow>
         have_same_index a b an bn warn error =
           ((if warn then [IgnoreIt (DontShareIndex an bn)] else []),
            (if error then Raised ValueError (DontShareIndex an bn) else Returned PyNone))
       \<and> \<not> truthy PyNone)"
    by (simp add: have_same_index_labeled)
  have 2: "\<not> is_labeled a \<longrightarrow>
         have_same_index a b an bn warn error = is_series_dataframe a an warn error
       \<and> have_same_index a b an bn warn False =
           ((if warn then [IgnoreIt (ShouldBeSeriesOrDataFrame an)] else []),
            Returned (PyBool False))"
    by (simp add: have_same_index_def is_series_dataframe_def report_def)
  have 3: "is_labeled a \<and> \<not> is_labeled b \<longrightarrow>
         have_same_index a b an bn warn error = is_series_dataframe b bn warn error
       \<and> have_same_index a b an bn warn False =
           ((if warn then [IgnoreIt (ShouldBeSeriesOrDataFrame bn)] else []),
            Returned (PyBool False))"
    by (simp add: have_same_index_def is_series_dataframe_def report_def)
  from 1 2 3 show ?thesis by blast
qed


theorem have_same_index_spec_witness:
  "is_labeled (Series [LStr ''x'', LStr ''y'', LStr ''z''] [Fin 1, Fin 2, Fin 3])
   \<and> is_labeled (Series [LStr ''z'', LStr ''x'', LStr ''y''] [Fin 3, Fin 1, Fin 2])
   \<and> is_labeled (Series [LStr ''x'', LStr ''y''] [Fin 1, Fin 2])
   \<and> \<not> is_labeled (PyList [PyInt 1, PyInt 2])
   \<and> snd (have_same_index (Series [LStr ''x'', LStr ''y'', LStr ''z''] [Fin 1, Fin 2, Fin 3])
            (Series [LStr ''z'', LStr ''x'', LStr ''y''] [Fin 3, Fin 1, Fin 2])
            ''variable 1'' ''variable 2'' False False) = Returned (PyBool True)
   \<and> have_same_index (Series [LStr ''x'', LStr ''y''] [Fin 1, Fin 2])
         (Series [LStr ''x'', LStr ''y'', LStr ''z''] [Fin 1, Fin 2, Fin 3])
         ''variable 1'' ''variable 2'' True False =
       ([IgnoreIt (DontShareIndex ''variable 1'' ''variable 2'')], Returned PyNone)
   \<and> have_same_index (PyList [PyInt 1, PyInt 2])
         (Series [LStr ''x'', LStr ''y''] [Fin 1, Fin 2])
         ''variable 1'' ''variable 2'' False False = ([], Returned (PyBool False))
   \<and> have_same_index (Series [LStr ''x'', LStr ''y''] [Fin 1, Fin 2])
         (PyList [PyInt 1, PyInt 2])
         ''variable 1'' ''variable 2'' False False = ([], Returned (PyBool False))"
proof -
  let ?xyz = "Series [LStr ''x'', LStr ''y'', LStr ''z''] [Fin 1, Fin 2, Fin 3]"
  let ?zxy = "Series [LStr ''z'', LStr ''x'', LStr ''y''] [Fin 3, Fin 1, Fin 2]"
  let ?xy = "Series [LStr ''x'', LStr ''y''] [Fin 1, Fin 2]"
  let ?l = "PyList [PyInt 1, PyInt 2]"
  have l1: "is_labeled ?xyz" and l2: "is_labeled ?zxy" and l3: "is_labeled ?xy"
    and l4: "\<not> is_labeled ?l"
    by simp_all
  have same: "label_set ?xyz = label_set ?zxy"
    using xyz_perm by simp
  have diff: "label_set ?xy \<noteq> label_set ?xyz"
    using xy_neq_xyz by simp
  from have_same_index_spec [of ?xyz ?zxy "''variable 1''" "''variable 2''" False False] l1 l2 same
  have a: "snd (have_same_index ?xyz ?zxy ''variable 1'' ''variable 2'' False False)
             = Returned (PyBool True)"
    by blast
  from have_same_index_spec [of ?xy ?xyz "''variable 1''" "''variable 2''" True False] l3 l1 diff
  have b: "have_same_index ?xy ?xyz ''variable 1'' ''variable 2'' True False =
       ([IgnoreIt (DontShareIndex ''variable 1'' ''variable 2'')], Returned PyNone)"
    by simp
  from have_same_index_spec [of ?l ?xy "''variable 1''" "''variable 2''" False False] l4
  have c: "have_same_index ?l ?xy ''variable 1'' ''variable 2'' False False =
       ([], Returned (PyBool False))"
    by (simp add: is_series_dataframe_def report_def)
  from have_same_index_spec [of ?xy ?l "''variable 1''" "''variable 2''" False False] l3 l4
  have d: "have_same_index ?xy ?l ''variable 1'' ''variable 2'' False False =
       ([], Returned (PyBool False))"
    by (simp add: is_series_dataframe_def report_def)
  from l1 l2 l3 l4 a b c d show ?thesis by blast
qed

section \<open>Reduction\<close>

text \<open>
  C9. When the length of the array along the chosen axis is odd, \<open>reduce_data\<close>
  raises the \<open>ValueError\<close> of an unequal division and returns no value.
\<close>

theorem reduce_data_odd_length:
  assumes "tuple_index (ndim a) axis = Returned k" and "odd (shape a ! k)"
  shows "reduce_data a axis = Raised ValueError UnequalDivision
         \<and> (\<forall>r. reduce_data a axis \<noteq> Returned r)"
  using assms by (simp add: reduce_data_def odd_iff_mod_2_eq_one)

theorem reduce_data_odd_length_witness:
  "tuple_index (ndim \<lparr>shape = [3], dtype = Float, elems = [Fin 1, Fin 2, Fin 3]\<rparr>) 0
     = Returned 0
   \<and> odd (shape \<lparr>shape = [3], dtype = Float, elems = [Fin 1, Fin 2, Fin 3]\<rparr> ! 0)
   \<and> reduce_data \<lparr>shape = [3], dtype = Float, elems = [Fin 1, Fin 2, Fin 3]\<rparr> 0
       = Raised ValueError UnequalDivision"
proof -
  let ?a = "\<lparr>shape = [3], dtype = Float, elems = [Fin 1, Fin 2, Fin 3]\<rparr>"
  have h1: "tuple_index (ndim ?a) 0 = Returned 0"
    by (simp add: tuple_index_def ndim_def)
  have h2: "odd (shape ?a ! 0)" by simp
  from reduce_data_odd_length [OF h1 h2] h1 h2 show ?thesis by blast
qed

section \<open>Augmentation followed by reduction\<close>

lemma log_like_nonempty: "xs \<noteq> [] \<Longrightarrow> \<exists>b. log_like xs = Returned b"
  by (cases xs) (auto simp add: log_like_def)

lemma augment_data_nonempty:
  assumes "elems v \<noteq> []"
  shows "\<exists>ws dt ys. augment_data v name warn = (ws, Returned (mirror dt ys))
                  \<and> length ys = length (elems v)"
proof -
  from assms obtain b where b: "log_like (elems v) = Returned b"
    using log_like_nonempty by blast
  show ?thesis
  proof (cases b)
    case True
    with b have "snd (augment_data v name warn) = Returned (mirror (dtype v) (elems v))"
      by (simp add: augment_data_def Let_def)
    then have "augment_data v name warn
                 = (fst (augment_data v name warn), Returned (mirror (dtype v) (elems v)))"
      by (metis prod.collapse)
    then show ?thesis by blast
  next
    case False
    let ?ys = "map (log2p1 (dtype v)) (elems v)"
    from False b have "snd (augment_data v name warn) = Returned (mirror Float ?ys)"
      by (simp add: augment_data_def Let_def)
    then have "augment_data v name warn
                 = (fst (augment_data v name warn), Returned (mirror Float ?ys))"
      by (metis prod.collapse)
    moreover have "length ?ys = length (elems v)" by simp
    ultimately show ?thesis by blast
  qed
qed

lemma reduce_data_mirror:
  assumes "axis = 0 \<or> axis = - 1"
  shows "reduce_data (mirror dt ys) axis
           = Returned \<lparr>shape = [length ys], dtype = neg_dtype dt, elems = ys\<rparr>"
proof -
  have k: "tuple_index (ndim (mirror dt ys)) axis = Returned 0"
    using assms by (auto simp add: tuple_index_def ndim_def mirror_def)
  have half: "first_half (mirror dt ys) 0
                = \<lparr>shape = [length ys], dtype = neg_dtype dt, elems = ys\<rparr>"
    by (simp add: first_half_def mirror_def)
  have even: "shape (mirror dt ys) ! 0 mod 2 = 0"
    by (simp add: mirror_def)
  from k half even show ?thesis
    by (simp add: reduce_data_def)
qed

text \<open>
  C5, as stated, fails on the empty vector: \<^verbatim>\<open>np.max\<close> of an empty array raises,
  so \<open>augment_data\<close> returns no array of twice the length.
\<close>

theorem augment_data_empty_raises:
  "augment_data \<lparr>shape = [0], dtype = Float, elems = []\<rparr> ''variable'' False
     = ([], Raised ValueError ZeroSizeReduction)"
  by (simp add: augment_data_def log_like_def np_mean_def)

text \<open>
  C5, amended. For a vector of \<open>n > 0\<close> elements \<open>augment_data\<close> returns an array
  of \<open>2 * n\<close> elements, and \<open>reduce_data\<close> along its only axis (0, or -1) returns
  the first \<open>n\<close> of them.
\<close>

theorem reduce_augment_length:
  assumes "length (elems v) = n" and "0 < n" and "axis = 0 \<or> axis = - 1"
  shows "\<exists>ws a r. augment_data v name warn = (ws, Returned a)
           \<and> shape a = [2 * n] \<and> length (elems a) = 2 * n
           \<and> reduce_data a axis = Returned r
           \<and> shape r = [n] \<and> length (elems r) = n
           \<and> elems r = take n (elems a)"
proof -
  from assms(1,2) have "elems v \<noteq> []" by auto
  then obtain ws dt ys where aug: "augment_data v name warn = (ws, Returned (mirror dt ys))"
    and len: "length ys = length (elems v)"
    using augment_data_nonempty by blast
  have red: "reduce_data (mirror dt ys) axis
               = Returned \<lparr>shape = [length ys], dtype = neg_dtype dt, elems = ys\<rparr>"
    using assms(3) by (rule reduce_data_mirror)
  have "shape (mirror dt ys) = [2 * n]" "length (elems (mirror dt ys)) = 2 * n"
    "take n (elems (mirror dt ys)) = ys"
    using len assms(1) by (simp_all add: mirror_def)
  with aug red len assms(1) show ?thesis by auto
qed

theorem reduce_augment_length_witness:
  "length (elems \<lparr>shape = [2], dtype = Float, elems = [Fin 1, Fin 3]\<rparr>) = 2 \<and> (0::nat) < 2
   \<and> (\<exists>ws a r. augment_data \<lparr>shape = [2], dtype = Float, elems = [Fin 1, Fin 3]\<rparr>
                   ''variable'' False = (ws, Returned a)
         \<and> length (elems a) = 2 * 2
         \<and> reduce_data a 0 = Returned r \<and> length (elems r) = 2)"
proof -
  let ?v = "\<lparr>shape = [2], dtype = Float, elems = [Fin 1, Fin 3]\<rparr>"
  have h1: "length (elems ?v) = 2" by simp
  have h2: "(0::nat) < 2" by simp
  have h3: "(0::int) = 0 \<or> (0::int) = - 1" by simp
  from reduce_augment_length [OF h1 h2 h3, of "''variable''" False] h1 h2
  show ?thesis by blast
qed

section \<open>Sign symmetry of the augmented vector\<close>

lemma float_eq_refl: "float_eq x x = (x \<noteq> NaN)"
  by (cases x) simp_all

lemma float_neg_nan: "(float_neg x = NaN) = (x = NaN)"
  by (cases x) simp_all

lemma wrap_signed_id:
  assumes "0 < w" and "- (2 ^ (w - 1)) \<le> i" and "i < 2 ^ (w - 1)"
  shows "wrap_signed w i = i"
proof -
  from assms(1) obtain k where k: "w = Suc k" by (cases w) auto
  then have p: "(2::int) ^ w = 2 * 2 ^ (w - 1)" by simp
  from assms(2) have lo: "0 \<le> i + 2 ^ (w - 1)" by simp
  from assms(3) p have hi: "i + 2 ^ (w - 1) < 2 ^ w" by simp
  from lo hi have "(i + 2 ^ (w - 1)) mod 2 ^ w = i + 2 ^ (w - 1)"
    by (rule mod_pos_pos_trivial)
  then show ?thesis by (simp add: wrap_signed_def)
qed

lemma wrap_unsigned_id: "0 \<le> i \<Longrightarrow> i < 2 ^ w \<Longrightarrow> wrap_unsigned w i = i"
  by (simp add: wrap_unsigned_def)

text \<open>On a safe element the sum \<^verbatim>\<open>x + 1\<close> does not wrap around.\<close>

lemma np_add_one_safe:
  assumes "log_safe dt x"
  shows "np_add_one dt x = float_add x (Fin 1) \<and> float_le (Fin (- 1)) x"
proof (cases dt)
  case Float
  with assms show ?thesis by simp
next
  case (SInt w)
  with assms obtain r where x: "x = Fin r" by (cases x) simp_all
  define i where "i = \<lfloor>r\<rfloor>"
  from assms SInt x have w: "0 < w" and r: "r = of_int i"
    and lo: "- 1 \<le> r" and hi: "r < 2 ^ (w - 1) - 1"
    by (auto simp add: float_le_def i_def)
  from lo r have ilo: "- 1 \<le> i" by linarith
  have "real_of_int i < real_of_int (2 ^ (w - 1) - 1)"
    using hi r by simp
  then have ihi: "i < 2 ^ (w - 1) - 1" by (simp only: of_int_less_iff)
  have "wrap_signed w (i + 1) = i + 1"
  proof (rule wrap_signed_id [OF w])
    have "(0::int) \<le> 2 ^ (w - 1)" by simp
    with ilo show "- (2 ^ (w - 1)) \<le> i + 1" by linarith
    from ihi show "i + 1 < 2 ^ (w - 1)" by linarith
  qed
  with SInt x r lo show ?thesis
    by (auto simp add: i_def [symmetric] float_le_def)
next
  case (UInt w)
  with assms obtain r where x: "x = Fin r" by (cases x) simp_all
  define i where "i = \<lfloor>r\<rfloor>"
  from assms UInt x have r: "r = of_int i" and lo: "0 \<le> i" and hi: "r < 2 ^ w - 1"
    by (auto simp add: i_def)
  have "real_of_int i < real_of_int (2 ^ w - 1)"
    using hi r by simp
  then have ihi: "i < 2 ^ w - 1" by (simp only: of_int_less_iff)
  have "wrap_unsigned w (i + 1) = i + 1"
    using lo ihi by (intro wrap_unsigned_id) linarith+
  moreover from lo r have "- 1 \<le> r" by linarith
  ultimately show ?thesis
    using UInt x r by (auto simp add: i_def [symmetric] float_le_def)
qed

lemma log2_plus_one_not_nan:
  "float_le (Fin (- 1)) x \<Longrightarrow> float_log2 (float_add x (Fin 1)) \<noteq> NaN"
  by (cases x) (auto simp add: float_le_def)

lemma log2p1_safe:
  assumes "log_safe dt x"
  shows "log2p1 dt x = float_log2 (float_add x (Fin 1))" and "log2p1 dt x \<noteq> NaN"
  using np_add_one_safe [OF assms] log2_plus_one_not_nan [of x]
  by (simp_all add: log2p1_def)

lemma sign_symmetric_mirror:
  assumes "\<forall>y\<in>set ys. y \<noteq> NaN"
  shows "sign_symmetric (length ys) (mirror Float ys)"
proof -
  have "list_all2 float_eq (map float_neg ys) (map float_neg ys)"
    using assms by (simp add: list_all2_same float_eq_refl float_neg_nan)
  moreover have "np_neg Float = float_neg" by (rule ext) simp
  ultimately show ?thesis
    by (simp add: sign_symmetric_def all_equal_def mirror_def)
qed

text \<open>
  On an 8-bit signed array the sum \<^verbatim>\<open>127 + 1\<close> wraps around to \<^verbatim>\<open>-128\<close>, whose
  logarithm is NaN.
\<close>

lemma augment_data_int8_wraps:
  "augment_data \<lparr>shape = [1], dtype = SInt 8, elems = [Fin 127]\<rparr> ''variable'' False
     = ([], Returned \<lparr>shape = [2], dtype = Float, elems = [NaN, NaN]\<rparr>)"
proof -
  have ll: "log_like [Fin 127] = Returned False"
    by (simp add: log_like_def)
  have l: "log2p1 (SInt 8) (Fin 127) = NaN"
    by (simp add: log2p1_def wrap_signed_def)
  from ll l show ?thesis
    by (simp add: augment_data_def mirror_def)
qed

text \<open>
  C4, as stated, fails on the float vector \<open>[-5, 1000]\<close>. Its mean is 497.5 and
  its maximum 1000, so the log branch is taken; \<^verbatim>\<open>log2(-5 + 1)\<close> is NaN, and NaN
  is equal to nothing: the comparisons \<^verbatim>\<open>a[n:] == -1 * a[:n]\<close> and
  \<^verbatim>\<open>a[:n] == log2(v + 1)\<close> are false at that position.
\<close>

theorem augment_data_nan_asymmetric:
  "log_like [Fin (- 5), Fin 1000] = Returned False
   \<and> \<not> isclose_zero (np_mean [Fin (- 5), Fin 1000])
   \<and> augment_data \<lparr>shape = [2], dtype = Float, elems = [Fin (- 5), Fin 1000]\<rparr>
         ''variable'' False
       = ([], Returned \<lparr>shape = [4], dtype = Float,
                        elems = [NaN, Fin (log 2 1001), NaN, Fin (- 1 * log 2 1001)]\<rparr>)
   \<and> \<not> sign_symmetric 2 \<lparr>shape = [4], dtype = Float,
                        elems = [NaN, Fin (log 2 1001), NaN, Fin (- 1 * log 2 1001)]\<rparr>
   \<and> \<not> all_equal (take 2 [NaN, Fin (log 2 1001), NaN, Fin (- 1 * log 2 1001)])
                   [float_log2 (float_add (Fin (- 5)) (Fin 1)),
                    float_log2 (float_add (Fin 1000) (Fin 1))]"
proof -
  have ll: "log_like [Fin (- 5), Fin 1000] = Returned False"
    by (simp add: log_like_def float_max_def)
  have mean: "\<not> isclose_zero (np_mean [Fin (- 5), Fin 1000])"
    by (simp add: np_mean_def)
  have l1: "log2p1 Float (Fin (- 5)) = NaN"
    and l2: "log2p1 Float (Fin 1000) = Fin (log 2 1001)"
    by (simp_all add: log2p1_def)
  have aug: "augment_data \<lparr>shape = [2], dtype = Float, elems = [Fin (- 5), Fin 1000]\<rparr>
         ''variable'' False
       = ([], Returned \<lparr>shape = [4], dtype = Float,
                        elems = [NaN, Fin (log 2 1001), NaN, Fin (- 1 * log 2 1001)]\<rparr>)"
    using ll l1 l2 by (simp add: augment_data_def mirror_def)
  have sym: "\<not> sign_symmetric 2 \<lparr>shape = [4], dtype = Float,
                        elems = [NaN, Fin (log 2 1001), NaN, Fin (- 1 * log 2 1001)]\<rparr>"
    by (simp add: sign_symmetric_def all_equal_def)
  have fst: "\<not> all_equal (take 2 [NaN, Fin (log 2 1001), NaN, Fin (- 1 * log 2 1001)])
                   [float_log2 (float_add (Fin (- 5)) (Fin 1)),
                    float_log2 (float_add (Fin 1000) (Fin 1))]"
    by (simp add: all_equal_def)
  from ll mean aug sym fst show ?thesis by blast
qed

text \<open>
  C4, amended. Take a vector of \<open>n\<close> elements on which the log branch is taken,
  of a floating-point dtype with all elements at least -1, or of an integer dtype
  with all elements at least -1 and below the largest value of the dtype. The
  result has \<open>2 * n\<close> elements, its second half equals -1 times its first half
  element by element, and its first half equals \<^verbatim>\<open>log2(v + 1)\<close> element by element.
  The test on the mean plays no part.
\<close>

theorem augment_data_log_branch:
  assumes "length (elems v) = n"
    and "log_like (elems v) = Returned False"
    and "\<forall>x\<in>set (elems v). log_safe (dtype v) x"
  shows "\<exists>a. snd (augment_data v name warn) = Returned a
           \<and> shape a = [2 * n] \<and> length (elems a) = 2 * n
           \<and> sign_symmetric n a
           \<and> all_equal (take n (elems a))
                (map (\<lambda>x. float_log2 (float_add x (Fin 1))) (elems v))"
proof -
  let ?ys = "map (log2p1 (dtype v)) (elems v)"
  have len: "length ?ys = n" using assms(1) by simp
  have nonan: "\<forall>y\<in>set ?ys. y \<noteq> NaN"
    using assms(3) by (simp add: log2p1_safe(2))
  have plain: "?ys = map (\<lambda>x. float_log2 (float_add x (Fin 1))) (elems v)"
    using assms(3) by (simp add: log2p1_safe(1))
  have res: "snd (augment_data v name warn) = Returned (mirror Float ?ys)"
    using assms(2) by (simp add: augment_data_def Let_def)
  have sh: "shape (mirror Float ?ys) = [2 * n]" "length (elems (mirror Float ?ys)) = 2 * n"
    using len by (simp_all add: mirror_def)
  have sym: "sign_symmetric n (mirror Float ?ys)"
    using sign_symmetric_mirror [OF nonan] len by simp
  have "take n (elems (mirror Float ?ys)) = ?ys"
    using len by (simp add: mirror_def)
  moreover have "list_all2 float_eq ?ys ?ys"
    using nonan by (simp only: list_all2_same float_eq_refl)
  ultimately have ae: "all_equal (take n (elems (mirror Float ?ys))) ?ys"
    by (simp add: all_equal_def)
  have first: "all_equal (take n (elems (mirror Float ?ys)))
                 (map (\<lambda>x. float_log2 (float_add x (Fin 1))) (elems v))"
    using ae by (simp only: plain [symmetric])
  from res sh sym first show ?thesis by blast
qed

theorem augment_data_log_branch_witness:
  "length (elems \<lparr>shape = [2], dtype = Float, elems = [Fin 3, Fin 1000]\<rparr>) = 2
   \<and> log_like (elems \<lparr>shape = [2], dtype = Float, elems = [Fin 3, Fin 1000]\<rparr>)
       = Returned False
   \<and> log_safe Float (Fin 3) \<and> log_safe Float (Fin 1000)
   \<and> (\<exists>a. snd (augment_data \<lparr>shape = [2], dtype = Float, elems = [Fin 3, Fin 1000]\<rparr>
                  ''variable'' False) = Returned a
          \<and> shape a = [2 * 2] \<and> sign_symmetric 2 a
          \<and> all_equal (take 2 (elems a))
               [float_log2 (float_add (Fin 3) (Fin 1)),
                float_log2 (float_add (Fin 1000) (Fin 1))])
   \<and> log_like (elems \<lparr>shape = [2], dtype = SInt 8, elems = [Fin 3, Fin 126]\<rparr>)
       = Returned False
   \<and> log_safe (SInt 8) (Fin 3) \<and> log_safe (SInt 8) (Fin 126)
   \<and> (\<exists>a. snd (augment_data \<lparr>shape = [2], dtype = SInt 8, elems = [Fin 3, Fin 126]\<rparr>
                  ''variable'' False) = Returned a
          \<and> shape a = [2 * 2] \<and> sign_symmetric 2 a)"
proof -
  let ?v = "\<lparr>shape = [2], dtype = Float, elems = [Fin 3, Fin 1000]\<rparr>"
  let ?u = "\<lparr>shape = [2], dtype = SInt 8, elems = [Fin 3, Fin 126]\<rparr>"
  have h1: "length (elems ?v) = 2" and g1: "length (elems ?u) = 2" by simp_all
  have h2: "log_like (elems ?v) = Returned False"
    by (simp add: log_like_def float_max_def)
  have g2: "log_like (elems ?u) = Returned False"
    by (simp add: log_like_def float_max_def)
  have h4: "log_safe Float (Fin 3)" "log_safe Float (Fin 1000)"
    by (simp_all add: float_le_def)
  have g4: "log_safe (SInt 8) (Fin 3)" "log_safe (SInt 8) (Fin 126)"
    by (simp_all add: float_le_def)
  from h4 have h3: "\<forall>x\<in>set (elems ?v). log_safe (dtype ?v) x" by simp
  from g4 have g3: "\<forall>x\<in>set (elems ?u). log_safe (dtype ?u) x" by simp
  from augment_data_log_branch [OF h1 h2 h3, of "''variable''" False]
  obtain a where a1: "snd (augment_data ?v ''variable'' False) = Returned a"
    and a2: "shape a = [2 * 2]" and a3: "sign_symmetric 2 a"
    and a4: "all_equal (take 2 (elems a))
               (map (\<lambda>x. float_log2 (float_add x (Fin 1))) (elems ?v))"
    by blast
  from a4 have a5: "all_equal (take 2 (elems a))
               [float_log2 (float_add (Fin 3) (Fin 1)),
                float_log2 (float_add (Fin 1000) (Fin 1))]"
    by simp
  from a1 a2 a3 a5
  have a: "\<exists>a. snd (augment_data ?v ''variable'' False) = Returned a
          \<and> shape a = [2 * 2] \<and> sign_symmetric 2 a
          \<and> all_equal (take 2 (elems a))
               [float_log2 (float_add (Fin 3) (Fin 1)),
                float_log2 (float_add (Fin 1000) (Fin 1))]"
    by blast
  from augment_data_log_branch [OF g1 g2 g3, of "''variable''" False]
  have b: "\<exists>a. snd (augment_data ?u ''variable'' False) = Returned a
          \<and> shape a = [2 * 2] \<and> sign_symmetric 2 a"
    by blast
  from h1 h2 h4 a g2 g4 b show ?thesis by blast
qed

section \<open>The likelihood-ratio test\<close>

text \<open>Bounds on \<open>exp 1\<close> from ten terms of its series, and on \<open>exp 10\<close> from them.\<close>

lemma exp_one_bounds: "271828 / 100000 < exp (1::real) \<and> exp (1::real) < 271829 / 100000"
proof -
  obtain t :: real where t: "\<bar>t\<bar> \<le> \<bar>1::real\<bar>"
    and e: "exp (1::real) = (\<Sum>m<10. (1 ^ m) / fact m) + (exp t / fact 10) * 1 ^ 10"
    using Maclaurin_exp_le [of 1 10] by blast
  have s: "(\<Sum>m<10::nat. (1::real) ^ m / fact m) = 98641 / 36288"
    by (simp add: lessThan_nat_numeral lessThan_Suc fact_numeral)
  have f: "fact 10 = (3628800::real)"
    by (simp add: fact_numeral)
  from t have "t \<le> 1" by simp
  then have "exp t \<le> exp (1::real)" by simp
  also have "exp (1::real) \<le> 3"
    using exp_bound [of 1] by simp
  finally have up: "exp t \<le> 3" .
  have lo: "0 < exp t" by simp
  from e s f have eq: "exp (1::real) = 98641 / 36288 + exp t / 3628800" by simp
  from eq lo have "271828 / 100000 < exp (1::real)" by linarith
  moreover from eq up have "exp (1::real) < 271829 / 100000" by linarith
  ultimately show ?thesis by blast
qed

lemma exp_ten_bounds: "22000 < exp (10::real) \<and> exp (10::real) < 22044"
proof -
  have p: "exp (10::real) = exp 1 ^ 10"
    using exp_of_nat_mult [of 10 "1::real"] by simp
  from exp_one_bounds have l: "271828 / 100000 < exp (1::real)"
    and u: "exp (1::real) < 271829 / 100000" by blast+
  have "(271828 / 100000 :: real) ^ 10 < exp 1 ^ 10"
    using l by (intro power_strict_mono) simp_all
  moreover have "(22000::real) < (271828 / 100000) ^ 10"
    by (simp add: power_divide)
  ultimately have lo: "22000 < exp (10::real)" using p by simp
  have "exp (1::real) ^ 10 < (271829 / 100000) ^ 10"
    using u by (intro power_strict_mono) simp_all
  moreover have "(271829 / 100000 :: real) ^ 10 < 22044"
    by (simp add: power_divide)
  ultimately have hi: "exp (10::real) < 22044" using p by simp
  from lo hi show ?thesis by blast
qed

lemma eleven_exp_bounds: "499 / 10 ^ 6 < 11 * exp (- 10 :: real) \<and> 11 * exp (- 10 :: real) < 500 / 10 ^ 6"
proof -
  from exp_ten_bounds have lo: "22000 < exp (10::real)" and hi: "exp (10::real) < 22044"
    by blast+
  have pos: "0 < exp (10::real)" by simp
  have inv: "exp (- 10 :: real) = 1 / exp 10"
    by (simp add: exp_minus inverse_eq_divide)
  have "499 / 10 ^ 6 * exp (10::real) < 11"
    using hi by simp
  then have a: "499 / 10 ^ 6 < 11 / exp (10::real)"
    using pos by (simp add: pos_less_divide_eq)
  have "11 < 500 / 10 ^ 6 * exp (10::real)"
    using lo by simp
  then have b: "11 / exp (10::real) < 500 / 10 ^ 6"
    using pos by (simp add: pos_divide_less_eq)
  from a b inv show ?thesis by simp
qed


lemma chi2_sf_four: "chi2_sf x 4 = (if x \<le> 0 then 1 else exp (- x / 2) * (1 + x / 2))"
  by (simp add: chi2_sf_def lessThan_nat_numeral lessThan_Suc)

lemma likelihood_ratio_test_chi2_sf:
  "likelihood_ratio_test chi2_sf (- 100) (- 90) 4 = 11 * exp (- 10)"
  by (simp add: likelihood_ratio_test_def chi2_sf_four)

text \<open>
  C8, as stated, fails in its number: the upper-tail probability of the chi-squared
  distribution with four degrees of freedom at 20 is \<open>11 * exp (- 10)\<close>, which is
  below 0.0005 and so not 0.000503 to within 0.000001.
\<close>

theorem likelihood_ratio_test_not_503:
  "\<not> \<bar>likelihood_ratio_test chi2_sf (- 100) (- 90) 4 - 503 / 10 ^ 6\<bar> \<le> 1 / 10 ^ 6"
proof
  let ?p = "likelihood_ratio_test chi2_sf (- 100) (- 90) 4"
  assume "\<bar>?p - 503 / 10 ^ 6\<bar> \<le> 1 / 10 ^ 6"
  then have lo: "503 / 10 ^ 6 - 1 / 10 ^ 6 \<le> ?p" by linarith
  have "11 * exp (- 10 :: real) < 500 / 10 ^ 6"
    using eleven_exp_bounds by blast
  then have hi: "?p < 500 / 10 ^ 6"
    by (simp only: likelihood_ratio_test_chi2_sf)
  from lo hi show False by simp
qed

text \<open>
  C8, amended. For all log-likelihoods and every \<open>df\<close> the function returns the
  survival function at \<open>2 * (ll_complex - ll_simple)\<close> and \<open>df\<close>, whatever the
  inputs are. For \<open>ll_simple = -100\<close>, \<open>ll_complex = -90\<close> and \<open>df = 4\<close> the
  statistic is 20, and the chi-squared upper-tail probability there is
  \<open>11 * exp (- 10)\<close>, between 0.000499 and 0.0005.
\<close>

theorem likelihood_ratio_test_value:
  "likelihood_ratio_test sf ll_simple ll_complex df = sf (2 * (ll_complex - ll_simple)) df
   \<and> likelihood_ratio_test sf (- 100) (- 90) df = sf 20 df
   \<and> likelihood_ratio_test chi2_sf (- 100) (- 90) 4 = 11 * exp (- 10)
   \<and> 499 / 10 ^ 6 < likelihood_ratio_test chi2_sf (- 100) (- 90) 4
   \<and> likelihood_ratio_test chi2_sf (- 100) (- 90) 4 < 500 / 10 ^ 6"
proof -
  have 1: "likelihood_ratio_test sf ll_simple ll_complex df
             = sf (2 * (ll_complex - ll_simple)) df"
    by (simp add: likelihood_ratio_test_def)
  have 2: "likelihood_ratio_test sf (- 100) (- 90) df = sf 20 df"
    by (simp add: likelihood_ratio_test_def)
  have 3: "likelihood_ratio_test chi2_sf (- 100) (- 90) 4 = 11 * exp (- 10)"
    by (rule likelihood_ratio_test_chi2_sf)
  have 4: "499 / 10 ^ 6 < likelihood_ratio_test chi2_sf (- 100) (- 90) 4"
    and 5: "likelihood_ratio_test chi2_sf (- 100) (- 90) 4 < 500 / 10 ^ 6"
    using eleven_exp_bounds by (simp_all only: 3)
  from 1 2 3 4 5 show ?thesis by blast
qed

end
